theory Spec2Isabelle
  imports Complex_Main
begin

section \<open>Python values and exceptions\<close>

text \<open>
  The two scripts (\<^verbatim>\<open>equal_weight_spdr.py\<close> and \<^verbatim>\<open>momentum_investing.py\<close>) run top to
  bottom; an exception that nothing catches ends the run. In the embedding every statement
  that can raise returns a sum: \<open>Inl\<close> the exception, \<open>Inr\<close> the value.

  Prices, returns and portfolio values are Python numbers. They are represented by exact
  rationals (the spec's data model calls them decimals); the rounding of IEEE-754 doubles
  is not part of the embedding.
\<close>

datatype py_error =
    ZeroDivisionError
  | TypeError
  | ValueError
  | KeyError string
  | EOFError
  | StatisticsError

text \<open>Python's \<^verbatim>\<open>a / b\<close> on numbers: a zero divisor raises.\<close>

definition py_truediv :: "rat \<Rightarrow> rat \<Rightarrow> py_error + rat" where
  "py_truediv a b = (if b = 0 then Inl ZeroDivisionError else Inr (a / b))"

text \<open>
  A cell of a DataFrame column that starts as the string \<^verbatim>\<open>'N/A'\<close> and is later
  overwritten by a number: a Python \<^verbatim>\<open>int\<close> or a Python \<^verbatim>\<open>float\<close>.
\<close>

datatype cell = NA | PyInt int | PyFloat rat


section \<open>Batcher: \<^verbatim>\<open>chucks\<close> and \<^verbatim>\<open>chunks\<close>\<close>

text \<open>
  \<^verbatim>\<open>
  def chunks(lst, n):
      for i in range(0, len(lst), n):
          yield lst[i:i + n]
  \<close>
  \<open>chunks_from lst n i\<close> is the loop from index \<open>i\<close> on, for a positive step. The slice
  \<^verbatim>\<open>lst[i:i + n]\<close> is \<open>take n (drop i lst)\<close>.
\<close>

function chunks_from :: "'a list \<Rightarrow> nat \<Rightarrow> nat \<Rightarrow> 'a list list" where
  "chunks_from lst n i =
     (if 0 < n \<and> i < length lst
      then take n (drop i lst) # chunks_from lst n (i + n)
      else [])"
  by pat_completeness auto
termination
  by (relation "measure (\<lambda>(lst, n, i). length lst - i)") auto

declare chunks_from.simps [simp del]

text \<open>
  \<^verbatim>\<open>range(0, len(lst), n)\<close> raises ValueError for a zero step and is empty for a negative
  one. The equal-weight script spells the function \<^verbatim>\<open>chucks\<close>, the momentum script
  \<^verbatim>\<open>chunks\<close>; the bodies are the same.
\<close>

definition chucks :: "'a list \<Rightarrow> int \<Rightarrow> py_error + 'a list list" where
  "chucks lst n =
     (if n = 0 then Inl ValueError
      else if n < 0 then Inr []
      else Inr (chunks_from lst (nat n) 0))"

definition chunks :: "'a list \<Rightarrow> int \<Rightarrow> py_error + 'a list list" where
  "chunks lst n =
     (if n = 0 then Inl ValueError
      else if n < 0 then Inr []
      else Inr (chunks_from lst (nat n) 0))"


section \<open>Loops over the rows of a DataFrame\<close>

text \<open>
  \<^verbatim>\<open>for i in range(0, len(df.index)): df.loc[i, col] = ...\<close> visits the rows in order and
  overwrites one cell of each; an exception raised in an iteration ends the loop and the
  run. \<open>for_rows body\<close> is that loop for a body that updates the row it visits.
\<close>

fun for_rows :: "('r \<Rightarrow> py_error + 'r) \<Rightarrow> 'r list \<Rightarrow> py_error + 'r list" where
  "for_rows body [] = Inr []"
| "for_rows body (r # rs) =
     (case body r of
        Inl e \<Rightarrow> Inl e
      | Inr r' \<Rightarrow>
          (case for_rows body rs of
             Inl e \<Rightarrow> Inl e
           | Inr rs' \<Rightarrow> Inr (r' # rs')))"


section \<open>Building the rows from the batch responses\<close>

text \<open>
  \<^verbatim>\<open>','.join(group)\<close> and \<^verbatim>\<open>symbol_string.split(',')\<close>. Python's split returns one
  (empty) field for the empty string.
\<close>

fun join_comma :: "string list \<Rightarrow> string" where
  "join_comma [] = []"
| "join_comma [s] = s"
| "join_comma (s # t # ts) = s @ CHR '','' # join_comma (t # ts)"

fun split_comma :: "string \<Rightarrow> string list" where
  "split_comma [] = [[]]"
| "split_comma (c # cs) =
     (if c = CHR '','' then [] # split_comma cs
      else (case split_comma cs of
              [] \<Rightarrow> [[c]]
            | w # ws \<Rightarrow> (c # w) # ws))"

text \<open>
  The equal-weight script. A batch response maps a symbol to its quote; a JSON
  \<^verbatim>\<open>null\<close> is \<open>None\<close>. \<^verbatim>\<open>data[symbol]\<close> raises KeyError for a symbol that is not a key.
\<close>

record quote =
  latestPrice :: "rat option"
  marketCap :: "rat option"

record ew_row =
  Ticker :: string
  Stock_Price :: "rat option"
  Market_Capitalization :: "rat option"
  Number_of_Shares_to_Buy :: cell

text \<open>
  \<^verbatim>\<open>
  for symbol in symbol_string.split(','):
      final_df = final_df.append(pd.Series([symbol,
          data[symbol]['quote']['latestPrice'], data[symbol]['quote']['marketCap'],
          'N/A'], index=my_columns), ignore_index=True)
  \<close>
\<close>

fun ew_append_rows ::
  "(string \<rightharpoonup> quote) \<Rightarrow> string list \<Rightarrow> ew_row list \<Rightarrow> py_error + ew_row list" where
  "ew_append_rows data [] final_df = Inr final_df"
| "ew_append_rows data (symbol # symbols) final_df =
     (case data symbol of
        None \<Rightarrow> Inl (KeyError symbol)
      | Some q \<Rightarrow>
          ew_append_rows data symbols
            (final_df @ [\<lparr>Ticker = symbol, Stock_Price = latestPrice q,
                          Market_Capitalization = marketCap q,
                          Number_of_Shares_to_Buy = NA\<rparr>]))"

text \<open>
  The outer loop: one request per symbol string. \<open>fetch\<close> stands for
  \<^verbatim>\<open>requests.get(batch_api_call_url).json()\<close>, the Quote Fetcher, which is not part of
  the repository.
\<close>

fun ew_fetch_loop ::
  "(string \<Rightarrow> (string \<rightharpoonup> quote)) \<Rightarrow> string list \<Rightarrow> ew_row list \<Rightarrow> py_error + ew_row list" where
  "ew_fetch_loop fetch [] final_df = Inr final_df"
| "ew_fetch_loop fetch (symbol_string # symbol_strings) final_df =
     (case ew_append_rows (fetch symbol_string) (split_comma symbol_string) final_df of
        Inl e \<Rightarrow> Inl e
      | Inr final_df' \<Rightarrow> ew_fetch_loop fetch symbol_strings final_df')"

definition ew_final_df ::
  "(string \<Rightarrow> (string \<rightharpoonup> quote)) \<Rightarrow> string list \<Rightarrow> py_error + ew_row list" where
  "ew_final_df fetch tickers =
     (case chucks tickers 100 of
        Inl e \<Rightarrow> Inl e
      | Inr symbol_groups \<Rightarrow> ew_fetch_loop fetch (map join_comma symbol_groups) [])"

text \<open>
  The momentum script asks for \<^verbatim>\<open>types=price,stats\<close>: \<^verbatim>\<open>data[symbol]['price']\<close> and the
  change percentages under \<^verbatim>\<open>data[symbol]['stats']\<close>.
\<close>

record stats =
  price :: "rat option"
  year1ChangePercent :: "rat option"
  month6ChangePercent :: "rat option"
  month3ChangePercent :: "rat option"
  month1ChangePercent :: "rat option"

datatype time_period = One_Year | Six_Month | Three_Month | One_Month

definition time_periods :: "time_period list" where
  "time_periods = [One_Year, Six_Month, Three_Month, One_Month]"

text \<open>
  A row of \<^verbatim>\<open>hqm_df\<close>. The columns \<^verbatim>\<open>f'{time_period} Price Return'\<close> and
  \<^verbatim>\<open>f'{time_period} Return Percentile'\<close> are indexed by the time period; the column
  \<^verbatim>\<open>'HQM Score'\<close> has no value until the score loop writes it.
\<close>

record hqm_row =
  hqm_Ticker :: string
  hqm_Price :: "rat option"
  hqm_Number_of_Shares_to_Buy :: cell
  Price_Return :: "time_period \<Rightarrow> rat option"
  Return_Percentile :: "time_period \<Rightarrow> cell"
  HQM_Score :: "rat option"

definition stats_change :: "stats \<Rightarrow> time_period \<Rightarrow> rat option" where
  "stats_change s tp =
     (case tp of
        One_Year \<Rightarrow> year1ChangePercent s
      | Six_Month \<Rightarrow> month6ChangePercent s
      | Three_Month \<Rightarrow> month3ChangePercent s
      | One_Month \<Rightarrow> month1ChangePercent s)"

fun hqm_append_rows ::
  "(string \<rightharpoonup> stats) \<Rightarrow> string list \<Rightarrow> hqm_row list \<Rightarrow> py_error + hqm_row list" where
  "hqm_append_rows data [] hqm_df = Inr hqm_df"
| "hqm_append_rows data (symbol # symbols) hqm_df =
     (case data symbol of
        None \<Rightarrow> Inl (KeyError symbol)
      | Some s \<Rightarrow>
          hqm_append_rows data symbols
            (hqm_df @ [\<lparr>hqm_Ticker = symbol, hqm_Price = price s,
                        hqm_Number_of_Shares_to_Buy = NA,
                        Price_Return = stats_change s,
                        Return_Percentile = (\<lambda>tp. NA),
                        HQM_Score = None\<rparr>]))"

fun hqm_fetch_loop ::
  "(string \<Rightarrow> (string \<rightharpoonup> stats)) \<Rightarrow> string list \<Rightarrow> hqm_row list \<Rightarrow> py_error + hqm_row list" where
  "hqm_fetch_loop fetch [] hqm_df = Inr hqm_df"
| "hqm_fetch_loop fetch (symbol_string # symbol_strings) hqm_df =
     (case hqm_append_rows (fetch symbol_string) (split_comma symbol_string) hqm_df of
        Inl e \<Rightarrow> Inl e
      | Inr hqm_df' \<Rightarrow> hqm_fetch_loop fetch symbol_strings hqm_df')"


section \<open>Allocator\<close>



text \<open>
  The momentum script keeps the portfolio size as the string that was typed and converts it
  where it is used:
  \<^verbatim>\<open>
  position_size = float(portfolio_size)/len(final_df.index)
  for i in range(0, len(final_df)):
      final_df.loc[i, 'Number of Shares to Buy'] = position_size/final_df.loc[i, 'Price']
  \<close>
  \<open>pyfloat\<close> stands for Python's built-in \<^verbatim>\<open>float\<close> on strings, \<open>None\<close> where it raises
  ValueError. The conversion is evaluated before the division.
\<close>

record mom_row =
  mom_Ticker :: string
  mom_Price :: "rat option"
  One_Year_Price_Return :: "rat option"
  mom_Number_of_Shares_to_Buy :: cell

definition position_size_of ::
  "(string \<Rightarrow> rat option) \<Rightarrow> string \<Rightarrow> nat \<Rightarrow> py_error + rat" where
  "position_size_of pyfloat portfolio_size n =
     (case pyfloat portfolio_size of
        None \<Rightarrow> Inl ValueError
      | Some v \<Rightarrow> py_truediv v (of_nat n))"

definition mom_shares :: "rat \<Rightarrow> mom_row \<Rightarrow> py_error + mom_row" where
  "mom_shares position_size r =
     (case mom_Price r of
        None \<Rightarrow> Inl TypeError
      | Some p \<Rightarrow>
          (case py_truediv position_size p of
             Inl e \<Rightarrow> Inl e
           | Inr q \<Rightarrow> Inr (r\<lparr>mom_Number_of_Shares_to_Buy := PyFloat q\<rparr>)))"

definition mom_allocate ::
  "(string \<Rightarrow> rat option) \<Rightarrow> string \<Rightarrow> mom_row list \<Rightarrow> py_error + mom_row list" where
  "mom_allocate pyfloat portfolio_size final_df =
     (case position_size_of pyfloat portfolio_size (length final_df) of
        Inl e \<Rightarrow> Inl e
      | Inr position_size \<Rightarrow> for_rows (mom_shares position_size) final_df)"

text \<open>
  The same statements on \<^verbatim>\<open>hqm_df\<close>:
  \<^verbatim>\<open>
  position_size = float(portfolio_size)/len(hqm_df.index)
  for i in hqm_df.index:
      hqm_df.loc[i, 'Number of Shares to Buy'] = position_size/hqm_df.loc[i, 'Price']
  \<close>
\<close>

definition hqm_shares :: "rat \<Rightarrow> hqm_row \<Rightarrow> py_error + hqm_row" where
  "hqm_shares position_size r =
     (case hqm_Price r of
        None \<Rightarrow> Inl TypeError
      | Some p \<Rightarrow>
          (case py_truediv position_size p of
             Inl e \<Rightarrow> Inl e
           | Inr q \<Rightarrow> Inr (r\<lparr>hqm_Number_of_Shares_to_Buy := PyFloat q\<rparr>)))"

definition hqm_allocate ::
  "(string \<Rightarrow> rat option) \<Rightarrow> string \<Rightarrow> hqm_row list \<Rightarrow> py_error + hqm_row list" where
  "hqm_allocate pyfloat portfolio_size hqm_df =
     (case position_size_of pyfloat portfolio_size (length hqm_df) of
        Inl e \<Rightarrow> Inl e
      | Inr position_size \<Rightarrow> for_rows (hqm_shares position_size) hqm_df)"



section \<open>Reading the portfolio size\<close>

text \<open>
  Standard input is the list of lines still to be read, standard output the list of strings
  written so far. \<^verbatim>\<open>input(prompt)\<close> writes the prompt and reads a line; at the end of
  the input it raises EOFError.
\<close>

record io =
  stdin :: "string list"
  stdout :: "string list"

definition py_input :: "string \<Rightarrow> io \<Rightarrow> py_error + (string \<times> io)" where
  "py_input prompt st =
     (case stdin st of
        [] \<Rightarrow> Inl EOFError
      | line # lines \<Rightarrow> Inr (line, \<lparr>stdin = lines, stdout = stdout st @ [prompt]\<rparr>))"

definition py_print :: "string \<Rightarrow> io \<Rightarrow> io" where
  "py_print s st = st\<lparr>stdout := stdout st @ [s]\<rparr>"

text \<open>
  \<^verbatim>\<open>
  def portfolio_input():
      global portfolio_size
      portfolio_size = input("Enter the value of your portfolio:")
      try:
          val = float(portfolio_size)
      except ValueError:
          print("That's not a number! \n Try again:")
          portfolio_size = input("Enter the value of your portfolio:")
  \<close>
  The result is the new value of the global \<^verbatim>\<open>portfolio_size\<close> (a string) with the
  state of the terminal; the local \<^verbatim>\<open>val\<close> is not used.
\<close>

definition portfolio_input ::
  "(string \<Rightarrow> rat option) \<Rightarrow> io \<Rightarrow> py_error + (string \<times> io)" where
  "portfolio_input pyfloat st =
     (case py_input ''Enter the value of your portfolio:'' st of
        Inl e \<Rightarrow> Inl e
      | Inr (portfolio_size, st1) \<Rightarrow>
          (case pyfloat portfolio_size of
             Some val \<Rightarrow> Inr (portfolio_size, st1)
           | None \<Rightarrow>
               py_input ''Enter the value of your portfolio:''
                 (py_print ''That's not a number! \<newline> Try again:'' st1)))"


section \<open>Ranking Engine\<close>

subsection \<open>Sorting a DataFrame by a column, descending\<close>



subsection \<open>Composite mode: missing returns\<close>

text \<open>
  \<^verbatim>\<open>
  for row in hqm_df.index:
      for time_period in time_periods:
          change_col = f'{time_period} Price Return'
          if hqm_df.loc[row, change_col] == None:
              hqm_df.loc[row, change_col] = 0.0
  \<close>
\<close>

definition normalize_cell :: "time_period \<Rightarrow> hqm_row \<Rightarrow> hqm_row" where
  "normalize_cell tp r =
     (if Price_Return r tp = None
      then r\<lparr>Price_Return := (Price_Return r)(tp := Some 0)\<rparr>
      else r)"

definition normalize_row :: "hqm_row \<Rightarrow> hqm_row" where
  "normalize_row r = fold normalize_cell time_periods r"

definition normalize :: "hqm_row list \<Rightarrow> hqm_row list" where
  "normalize hqm_df = map normalize_row hqm_df"

subsection \<open>Composite mode: percentiles\<close>





subsection \<open>Composite mode: the HQM score\<close>









section \<open>Closed forms used in the proofs\<close>

text \<open>
  The return of a row for a time period once the normalisation loop has run: zero where the
  provider sent no value.
\<close>

definition change :: "hqm_row \<Rightarrow> time_period \<Rightarrow> rat" where
  "change r tp = (case Price_Return r tp of None \<Rightarrow> 0 | Some x \<Rightarrow> x)"

text \<open>The population of a time period: the column of the normalised returns.\<close>

definition returns :: "hqm_row list \<Rightarrow> time_period \<Rightarrow> rat list" where
  "returns hqm_df tp = map (\<lambda>r. change r tp) hqm_df"




section \<open>Properties of the Batcher\<close>

lemma chunks_from_unfold:
  "0 < n \<Longrightarrow> i < length lst \<Longrightarrow>
   chunks_from lst n i = take n (drop i lst) # chunks_from lst n (i + n)"
  by (subst chunks_from.simps) simp

lemma chunks_from_done: "length lst \<le> i \<Longrightarrow> chunks_from lst n i = []"
  by (subst chunks_from.simps) simp

lemma concat_chunks_from: "0 < n \<Longrightarrow> concat (chunks_from lst n i) = drop i lst"
proof (induction lst n i rule: chunks_from.induct)
  case (1 lst n i)
  show ?case
  proof (cases "i < length lst")
    case True
    have "concat (chunks_from lst n i) = take n (drop i lst) @ drop (i + n) lst"
      using 1 True by (simp add: chunks_from_unfold)
    also have "\<dots> = take n (drop i lst) @ drop n (drop i lst)"
      by (simp add: add.commute)
    also have "\<dots> = drop i lst"
      by (rule append_take_drop_id)
    finally show ?thesis .
  next
    case False
    then show ?thesis by (simp add: chunks_from_done)
  qed
qed

lemma chunks_from_sizes:
  "0 < n \<Longrightarrow> c \<in> set (chunks_from lst n i) \<Longrightarrow> c \<noteq> [] \<and> length c \<le> n"
proof (induction lst n i rule: chunks_from.induct)
  case (1 lst n i)
  show ?case
  proof (cases "i < length lst")
    case True
    then have "c = take n (drop i lst) \<or> c \<in> set (chunks_from lst n (i + n))"
      using 1(2,3) by (simp add: chunks_from_unfold)
    then show ?thesis
    proof
      assume "c = take n (drop i lst)"
      then show ?thesis using True 1(2) by simp
    next
      assume "c \<in> set (chunks_from lst n (i + n))"
      then show ?thesis using 1(1) 1(2) True by simp
    qed
  next
    case False
    then show ?thesis using 1(3) by (simp add: chunks_from_done)
  qed
qed

lemma chunks_from_full:
  "0 < n \<Longrightarrow> Suc k < length (chunks_from lst n i) \<Longrightarrow>
   length (chunks_from lst n i ! k) = n"
proof (induction lst n i arbitrary: k rule: chunks_from.induct)
  case (1 lst n i)
  show ?case
  proof (cases "i < length lst")
    case True
    note unf = chunks_from_unfold [OF 1(2) True]
    show ?thesis
    proof (cases k)
      case 0
      have "chunks_from lst n (i + n) \<noteq> []"
        using 1(3) unf 0 by auto
      then have "i + n < length lst"
        using chunks_from_done [of lst "i + n" n] by (cases "i + n < length lst") simp_all
      then show ?thesis using unf 0 by simp
    next
      case (Suc j)
      have "Suc j < length (chunks_from lst n (i + n))"
        using 1(3) unf Suc by simp
      then have "length (chunks_from lst n (i + n) ! j) = n"
        using 1(1) 1(2) True by simp
      then show ?thesis using unf Suc by simp
    qed
  next
    case False
    then show ?thesis using 1(3) by (simp add: chunks_from_done)
  qed
qed

text \<open>
  Claim C4. For every list of symbols and every positive chunk size \<open>n\<close>, both batchers
  return chunks whose concatenation is the original list in order; every chunk has at
  most \<open>n\<close> elements; every chunk but the last has exactly \<open>n\<close>; no chunk is empty, so
  an empty input gives zero chunks.
\<close>

theorem batcher_chunks:
  assumes "0 < n"
  shows "\<exists>cs. chucks lst n = Inr cs \<and> chunks lst n = Inr cs
           \<and> concat cs = lst
           \<and> (\<forall>c \<in> set cs. length c \<le> nat n)
           \<and> (\<forall>k. Suc k < length cs \<longrightarrow> length (cs ! k) = nat n)
           \<and> (\<forall>c \<in> set cs. c \<noteq> [])
           \<and> (lst = [] \<longrightarrow> cs = [])"
proof -
  let ?cs = "chunks_from lst (nat n) 0"
  have pos: "0 < nat n" using assms by simp
  have "chucks lst n = Inr ?cs" "chunks lst n = Inr ?cs"
    using assms by (simp_all add: chucks_def chunks_def)
  moreover have "concat ?cs = lst"
    using concat_chunks_from [OF pos, of lst 0] by simp
  moreover have "\<forall>c \<in> set ?cs. length c \<le> nat n"
    using chunks_from_sizes [OF pos] by blast
  moreover have "\<forall>k. Suc k < length ?cs \<longrightarrow> length (?cs ! k) = nat n"
    using chunks_from_full [OF pos] by blast
  moreover have "\<forall>c \<in> set ?cs. c \<noteq> []"
    using chunks_from_sizes [OF pos] by blast
  moreover have "lst = [] \<longrightarrow> ?cs = []"
    by (simp add: chunks_from_done)
  ultimately show ?thesis by blast
qed

theorem batcher_chunks_witness:
  "(0::int) < 2
   \<and> chucks [''A'', ''B'', ''C'', ''D'', ''E''] 2 = Inr [[''A'', ''B''], [''C'', ''D''], [''E'']]
   \<and> chunks [''A'', ''B'', ''C'', ''D'', ''E''] 2 = Inr [[''A'', ''B''], [''C'', ''D''], [''E'']]
   \<and> chunks ([] :: string list) 2 = Inr []"
proof -
  have h: "(0::int) < 2" by simp
  have ev: "chunks_from [''A'', ''B'', ''C'', ''D'', ''E''] 2 0
              = [[''A'', ''B''], [''C'', ''D''], [''E'']]"
    by (simp add: chunks_from_unfold chunks_from_done)
  from batcher_chunks [OF h, of "[''A'', ''B'', ''C'', ''D'', ''E'']"]
  obtain cs where "chucks [''A'', ''B'', ''C'', ''D'', ''E''] 2 = Inr cs"
    and "chunks [''A'', ''B'', ''C'', ''D'', ''E''] 2 = Inr cs" by blast
  moreover from batcher_chunks [OF h, of "[] :: string list"]
  have "chunks ([] :: string list) 2 = Inr []" by auto
  ultimately show ?thesis using ev by (simp add: chunks_def)
qed

section \<open>Properties of the row loops\<close>


lemma for_rows_Inr_length:
  "for_rows body rs = Inr out \<Longrightarrow> length out = length rs"
  by (induction rs arbitrary: out) (auto split: sum.splits)

lemma for_rows_Inr_nth:
  "for_rows body rs = Inr out \<Longrightarrow> i < length rs \<Longrightarrow> body (rs ! i) = Inr (out ! i)"
proof (induction rs arbitrary: out i)
  case Nil
  then show ?case by simp
next
  case (Cons r rs)
  then show ?case
    by (cases i) (auto split: sum.splits)
qed

lemma for_rows_Inl:
  "r \<in> set rs \<Longrightarrow> body r = Inl e \<Longrightarrow> \<exists>e'. for_rows body rs = Inl e'"
  by (induction rs) (auto split: sum.splits)


section \<open>Properties of the Allocator\<close>









text \<open>
  Claim C2, at an input where the momentum script does not do what the claim says: a
  portfolio of 1 and a single row priced 2. The position size is 1 and the script stores
  the Python float 1/2 as the number of shares, in the top-50 table and in the HQM table
  alike; the floor of 1/2 is 0. (The equal-weight script takes the floor.)
\<close>

theorem momentum_shares_not_floored:
  "mom_allocate (\<lambda>s. if s = ''1'' then Some 1 else None) ''1''
       [\<lparr>mom_Ticker = ''A'', mom_Price = Some 2, One_Year_Price_Return = Some 0,
         mom_Number_of_Shares_to_Buy = NA\<rparr>]
     = Inr [\<lparr>mom_Ticker = ''A'', mom_Price = Some 2, One_Year_Price_Return = Some 0,
         mom_Number_of_Shares_to_Buy = PyFloat (1 / 2)\<rparr>]
   \<and> hqm_allocate (\<lambda>s. if s = ''1'' then Some 1 else None) ''1''
       [\<lparr>hqm_Ticker = ''A'', hqm_Price = Some 2, hqm_Number_of_Shares_to_Buy = NA,
         Price_Return = (\<lambda>tp. Some 0), Return_Percentile = (\<lambda>tp. NA),
         HQM_Score = None\<rparr>]
     = Inr [\<lparr>hqm_Ticker = ''A'', hqm_Price = Some 2,
              hqm_Number_of_Shares_to_Buy = PyFloat (1 / 2),
              Price_Return = (\<lambda>tp. Some 0), Return_Percentile = (\<lambda>tp. NA),
              HQM_Score = None\<rparr>]
   \<and> \<lfloor>(1 :: rat) / 2\<rfloor> = 0"
  by (simp add: mom_allocate_def hqm_allocate_def position_size_of_def mom_shares_def
        hqm_shares_def py_truediv_def floor_eq_iff)


section \<open>Properties of the portfolio prompt\<close>

text \<open>
  Claim C10. In the momentum script, when \<^verbatim>\<open>float\<close> rejects the first line typed, the
  second line becomes \<^verbatim>\<open>portfolio_size\<close> whatever it is: \<^verbatim>\<open>portfolio_input\<close> returns
  normally, having printed the message and the prompt again. If \<^verbatim>\<open>float\<close> rejects that
  line too, the ValueError is raised by \<^verbatim>\<open>float(portfolio_size)\<close> in the allocation, for
  the top-50 table and for the HQM table.
\<close>

theorem portfolio_input_retry_unchecked:
  assumes "pyfloat first = None"
  shows "portfolio_input pyfloat \<lparr>stdin = first # second # rest, stdout = out\<rparr>
           = Inr (second,
                  \<lparr>stdin = rest,
                   stdout = out @ [''Enter the value of your portfolio:'',
                                   ''That's not a number! \<newline> Try again:'',
                                   ''Enter the value of your portfolio:'']\<rparr>)
         \<and> (pyfloat second = None \<longrightarrow>
               mom_allocate pyfloat second final_df = Inl ValueError
             \<and> hqm_allocate pyfloat second hqm_df = Inl ValueError)"
  using assms
  by (simp add: portfolio_input_def py_input_def py_print_def mom_allocate_def
        hqm_allocate_def position_size_of_def)

theorem portfolio_input_retry_unchecked_witness:
  "portfolio_input (\<lambda>s. if s = ''1000'' then Some 1000 else None)
       \<lparr>stdin = [''abc'', ''xyz''], stdout = []\<rparr>
     = Inr (''xyz'',
            \<lparr>stdin = [],
             stdout = [''Enter the value of your portfolio:'',
                       ''That's not a number! \<newline> Try again:'',
                       ''Enter the value of your portfolio:'']\<rparr>)
   \<and> mom_allocate (\<lambda>s. if s = ''1000'' then Some 1000 else None) ''xyz''
       [\<lparr>mom_Ticker = ''A'', mom_Price = Some 2, One_Year_Price_Return = Some 0,
         mom_Number_of_Shares_to_Buy = NA\<rparr>]
     = Inl ValueError
   \<and> hqm_allocate (\<lambda>s. if s = ''1000'' then Some 1000 else None) ''xyz'' []
     = Inl ValueError"
proof -
  let ?f = "\<lambda>s. if s = ''1000'' then Some (1000 :: rat) else None"
  have h: "?f ''abc'' = None" by simp
  have h2: "?f ''xyz'' = None" by simp
  note retry = portfolio_input_retry_unchecked
    [where pyfloat = ?f and first = "''abc''" and second = "''xyz''"
       and rest = "[]" and out = "[]" and hqm_df = "[]"
       and final_df = "[\<lparr>mom_Ticker = ''A'', mom_Price = Some 2,
            One_Year_Price_Return = Some 0, mom_Number_of_Shares_to_Buy = NA\<rparr>]"]
  from retry [OF h] h2 show ?thesis by simp
qed

section \<open>Properties of the row-building loops\<close>

lemma ew_append_rows_absent:
  "(\<And>k. k \<in> set before \<Longrightarrow> data k \<noteq> None) \<Longrightarrow> data s = None \<Longrightarrow>
   ew_append_rows data (before @ s # after) final_df = Inl (KeyError s)"
proof (induction before arbitrary: final_df)
  case Nil
  then show ?case by simp
next
  case (Cons k ks)
  have "data k \<noteq> None" using Cons.prems(1) by simp
  then obtain q where q: "data k = Some q" by (cases "data k") simp_all
  have "ew_append_rows data (ks @ s # after)
          (final_df @ [\<lparr>Ticker = k, Stock_Price = latestPrice q,
                        Market_Capitalization = marketCap q,
                        Number_of_Shares_to_Buy = NA\<rparr>]) = Inl (KeyError s)"
    using Cons.prems by (intro Cons.IH) simp_all
  then show ?case using q by simp
qed

lemma ew_append_rows_present:
  "(\<And>k. k \<in> set symbols \<Longrightarrow> data k \<noteq> None) \<Longrightarrow>
   \<exists>rows. ew_append_rows data symbols final_df = Inr (final_df @ rows)
        \<and> map Ticker rows = symbols"
proof (induction symbols arbitrary: final_df)
  case Nil
  then show ?case by simp
next
  case (Cons k ks)
  have "data k \<noteq> None" using Cons.prems by simp
  then obtain q where q: "data k = Some q" by (cases "data k") simp_all
  let ?row = "\<lparr>Ticker = k, Stock_Price = latestPrice q, Market_Capitalization = marketCap q,
               Number_of_Shares_to_Buy = NA\<rparr>"
  have "\<exists>rows. ew_append_rows data ks (final_df @ [?row]) = Inr ((final_df @ [?row]) @ rows)
        \<and> map Ticker rows = ks"
    using Cons.prems by (intro Cons.IH) simp
  then obtain rows where rows: "ew_append_rows data ks (final_df @ [?row])
        = Inr ((final_df @ [?row]) @ rows)" "map Ticker rows = ks"
    by (elim exE conjE)
  have "ew_append_rows data (k # ks) final_df = Inr (final_df @ (?row # rows))"
    using q rows(1) by simp
  moreover have "map Ticker (?row # rows) = k # ks" using rows(2) by simp
  ultimately show ?case by (intro exI conjI)
qed

lemma hqm_append_rows_absent:
  "(\<And>k. k \<in> set before \<Longrightarrow> data k \<noteq> None) \<Longrightarrow> data s = None \<Longrightarrow>
   hqm_append_rows data (before @ s # after) hqm_df = Inl (KeyError s)"
proof (induction before arbitrary: hqm_df)
  case Nil
  then show ?case by simp
next
  case (Cons k ks)
  have "data k \<noteq> None" using Cons.prems(1) by simp
  then obtain q where q: "data k = Some q" by (cases "data k") simp_all
  have "hqm_append_rows data (ks @ s # after)
          (hqm_df @ [\<lparr>hqm_Ticker = k, hqm_Price = price q,
                      hqm_Number_of_Shares_to_Buy = NA,
                      Price_Return = stats_change q,
                      Return_Percentile = (\<lambda>tp. NA),
                      HQM_Score = None\<rparr>]) = Inl (KeyError s)"
    using Cons.prems by (intro Cons.IH) simp_all
  then show ?case using q by simp
qed

lemma hqm_append_rows_present:
  "(\<And>k. k \<in> set symbols \<Longrightarrow> data k \<noteq> None) \<Longrightarrow>
   \<exists>rows. hqm_append_rows data symbols hqm_df = Inr (hqm_df @ rows)
        \<and> map hqm_Ticker rows = symbols"
proof (induction symbols arbitrary: hqm_df)
  case Nil
  then show ?case by simp
next
  case (Cons k ks)
  have "data k \<noteq> None" using Cons.prems by simp
  then obtain q where q: "data k = Some q" by (cases "data k") simp_all
  let ?row = "\<lparr>hqm_Ticker = k, hqm_Price = price q, hqm_Number_of_Shares_to_Buy = NA,
               Price_Return = stats_change q, Return_Percentile = (\<lambda>tp. NA),
               HQM_Score = None\<rparr>"
  have "\<exists>rows. hqm_append_rows data ks (hqm_df @ [?row]) = Inr ((hqm_df @ [?row]) @ rows)
        \<and> map hqm_Ticker rows = ks"
    using Cons.prems by (intro Cons.IH) simp
  then obtain rows where rows: "hqm_append_rows data ks (hqm_df @ [?row])
        = Inr ((hqm_df @ [?row]) @ rows)" "map hqm_Ticker rows = ks"
    by (elim exE conjE)
  have "hqm_append_rows data (k # ks) hqm_df = Inr (hqm_df @ (?row # rows))"
    using q rows(1) by simp
  moreover have "map hqm_Ticker (?row # rows) = k # ks" using rows(2) by simp
  ultimately show ?case by (intro exI conjI)
qed

text \<open>
  Claim C9 says that a requested symbol missing from the batch response is skipped and the
  loop goes on. The scripts index the response with \<^verbatim>\<open>data[symbol]\<close>: at the batch
  \<^verbatim>\<open>'AAPL,MSFT,GOOG'\<close> with a response that has no \<^verbatim>\<open>MSFT\<close> both loops end in
  \<^verbatim>\<open>KeyError('MSFT')\<close>; no table with the rows of \<^verbatim>\<open>AAPL\<close> and \<^verbatim>\<open>GOOG\<close> results.
\<close>

theorem absent_symbol_not_skipped:
  "ew_fetch_loop
       (\<lambda>u. [''AAPL'' \<mapsto> \<lparr>latestPrice = Some 150, marketCap = Some 1000\<rparr>,
              ''GOOG'' \<mapsto> \<lparr>latestPrice = Some 90, marketCap = Some 2000\<rparr>])
       [''AAPL,MSFT,GOOG''] []
     = Inl (KeyError ''MSFT'')
   \<and> hqm_fetch_loop
       (\<lambda>u. [''AAPL'' \<mapsto> \<lparr>price = Some 150, year1ChangePercent = Some 1,
                 month6ChangePercent = Some 1, month3ChangePercent = Some 1,
                 month1ChangePercent = Some 1\<rparr>,
              ''GOOG'' \<mapsto> \<lparr>price = Some 90, year1ChangePercent = Some 2,
                 month6ChangePercent = Some 2, month3ChangePercent = Some 2,
                 month1ChangePercent = Some 2\<rparr>])
       [''AAPL,MSFT,GOOG''] []
     = Inl (KeyError ''MSFT'')"
  by simp

text \<open>
  Claim C9, amended. In a batch whose symbols are \<open>before @ s # after\<close>, if the response
  has every symbol of \<open>before\<close> and does not have \<open>s\<close>, the row-building loop of either
  script raises \<^verbatim>\<open>KeyError(s)\<close> there: the symbols after it and the batches after this one
  are not processed and no table results. When the response has every symbol of the batch,
  one row per symbol is appended, in the order of the batch.
\<close>

theorem absent_symbol_raises:
  "((\<forall>k \<in> set before. quotes k \<noteq> None) \<and> quotes s = None
      \<and> split_comma symbol_string = before @ s # after \<and> fetch symbol_string = quotes
     \<longrightarrow> ew_fetch_loop fetch (symbol_string # symbol_strings) final_df = Inl (KeyError s))
   \<and> ((\<forall>k \<in> set before. statistics k \<noteq> None) \<and> statistics s = None
      \<and> split_comma symbol_string = before @ s # after \<and> fetch' symbol_string = statistics
     \<longrightarrow> hqm_fetch_loop fetch' (symbol_string # symbol_strings) hqm_df = Inl (KeyError s))
   \<and> ((\<forall>k \<in> set symbols. quotes k \<noteq> None)
     \<longrightarrow> (\<exists>rows. ew_append_rows quotes symbols final_df = Inr (final_df @ rows)
            \<and> map Ticker rows = symbols))
   \<and> ((\<forall>k \<in> set symbols. statistics k \<noteq> None)
     \<longrightarrow> (\<exists>rows. hqm_append_rows statistics symbols hqm_df = Inr (hqm_df @ rows)
            \<and> map hqm_Ticker rows = symbols))"
proof (intro conjI impI)
  assume a: "(\<forall>k \<in> set before. quotes k \<noteq> None) \<and> quotes s = None
      \<and> split_comma symbol_string = before @ s # after \<and> fetch symbol_string = quotes"
  then have "ew_append_rows quotes (before @ s # after) final_df = Inl (KeyError s)"
    by (intro ew_append_rows_absent) simp_all
  then show "ew_fetch_loop fetch (symbol_string # symbol_strings) final_df = Inl (KeyError s)"
    using a by simp
next
  assume a: "(\<forall>k \<in> set before. statistics k \<noteq> None) \<and> statistics s = None
      \<and> split_comma symbol_string = before @ s # after \<and> fetch' symbol_string = statistics"
  then have "hqm_append_rows statistics (before @ s # after) hqm_df = Inl (KeyError s)"
    by (intro hqm_append_rows_absent) simp_all
  then show "hqm_fetch_loop fetch' (symbol_string # symbol_strings) hqm_df = Inl (KeyError s)"
    using a by simp
next
  assume "\<forall>k \<in> set symbols. quotes k \<noteq> None"
  then show "\<exists>rows. ew_append_rows quotes symbols final_df = Inr (final_df @ rows)
            \<and> map Ticker rows = symbols"
    by (intro ew_append_rows_present) simp
next
  assume "\<forall>k \<in> set symbols. statistics k \<noteq> None"
  then show "\<exists>rows. hqm_append_rows statistics symbols hqm_df = Inr (hqm_df @ rows)
            \<and> map hqm_Ticker rows = symbols"
    by (intro hqm_append_rows_present) simp
qed

theorem absent_symbol_raises_witness:
  "ew_fetch_loop (\<lambda>u. [''A'' \<mapsto> \<lparr>latestPrice = Some 10, marketCap = None\<rparr>])
       [''A,B'', ''C''] []
     = Inl (KeyError ''B'')
   \<and> hqm_fetch_loop
       (\<lambda>u. [''A'' \<mapsto> \<lparr>price = Some 10, year1ChangePercent = None,
                 month6ChangePercent = Some 1, month3ChangePercent = Some 1,
                 month1ChangePercent = Some 1\<rparr>])
       [''A,B'', ''C''] []
     = Inl (KeyError ''B'')
   \<and> (\<exists>rows. ew_append_rows [''A'' \<mapsto> \<lparr>latestPrice = Some 10, marketCap = None\<rparr>]
                [''A''] [] = Inr rows
          \<and> map Ticker rows = [''A''])
   \<and> (\<exists>rows. hqm_append_rows
                [''A'' \<mapsto> \<lparr>price = Some 10, year1ChangePercent = None,
                   month6ChangePercent = Some 1, month3ChangePercent = Some 1,
                   month1ChangePercent = Some 1\<rparr>]
                [''A''] [] = Inr rows
          \<and> map hqm_Ticker rows = [''A''])"
proof -
  let ?quotes = "[''A'' \<mapsto> \<lparr>latestPrice = Some (10 :: rat), marketCap = None\<rparr>]"
  let ?statistics = "[''A'' \<mapsto> \<lparr>price = Some (10 :: rat), year1ChangePercent = None,
                   month6ChangePercent = Some 1, month3ChangePercent = Some 1,
                   month1ChangePercent = Some 1\<rparr>]"
  note inst = absent_symbol_raises
    [where quotes = ?quotes and statistics = ?statistics
       and before = "[''A'']" and s = "''B''" and after = "[]"
       and symbol_string = "''A,B''" and symbol_strings = "[''C'']"
       and fetch = "\<lambda>u. ?quotes" and fetch' = "\<lambda>u. ?statistics"
       and symbols = "[''A'']" and final_df = "[]" and hqm_df = "[]"]
  have split: "split_comma ''A,B'' = [''A''] @ ''B'' # []" by simp
  have q: "(\<forall>k \<in> set [''A'']. ?quotes k \<noteq> None) \<and> ?quotes ''B'' = None" by simp
  have s: "(\<forall>k \<in> set [''A'']. ?statistics k \<noteq> None) \<and> ?statistics ''B'' = None" by simp
  from inst split q s show ?thesis by simp
qed

section \<open>The composite mode in closed form\<close>


lemma Price_Return_normalize_row:
  "Price_Return (normalize_row r) tp = Some (change r tp)"
  by (cases tp) (simp_all add: normalize_row_def normalize_cell_def time_periods_def change_def split: option.splits)




lemma change_update_percentile [simp]:
  "change (r\<lparr>Return_Percentile := f\<rparr>) tp = change r tp"
  by (simp add: change_def)





lemma change_normalize_row [simp]: "change (normalize_row r) tp = change r tp"
  by (simp add: change_def Price_Return_normalize_row)

lemma returns_normalize [simp]: "returns (normalize hqm_df) tp = returns hqm_df tp"
  by (simp add: returns_def normalize_def)



section \<open>The stored percentile as a number\<close>












section \<open>Properties of the composite mode\<close>



lemma length_returns [simp]: "length (returns hqm_df tp) = length hqm_df"
  by (simp add: returns_def)











section \<open>Missing returns in the two momentum modes\<close>









end
